theory Spec2Isabelle
  imports Main "HOL-Library.Word"
begin

section \<open>The employee store of sqlite\_demo.py\<close>

text \<open>
  The script opens one in-memory SQLite connection \<^verbatim>\<open>conn\<close> with one cursor \<^verbatim>\<open>c\<close>,
  creates the table \<^verbatim>\<open>employees (first text, last text, pay integer)\<close> and defines four
  functions that each run one parameterised statement: \<^verbatim>\<open>insert_emp\<close>,
  \<^verbatim>\<open>get_emps_by_name\<close>, \<^verbatim>\<open>update_pay\<close> and \<^verbatim>\<open>remove_emp\<close>.

  The functions are Python; the statements they run are executed by the sqlite3 module.
  The model below gives each statement the meaning the module gives it on this table:
  \<^item> a Python \<^verbatim>\<open>str\<close> is the list of its code points. The module binds it as UTF-8, and
    the binding raises \<^verbatim>\<open>UnicodeEncodeError\<close> when the \<^verbatim>\<open>str\<close> holds a surrogate
    (U+D800 to U+DFFF). A stored TEXT is a list of code points that UTF-8 can encode;
    the encoding is one-to-one, so \<^verbatim>\<open>=\<close> on stored text (a comparison of the bytes under
    the default collation) is the equality of the code points;
  \<^item> a Python \<^verbatim>\<open>int\<close> is an \<open>int\<close>; a stored INTEGER is a signed 64-bit value, a \<open>64 word\<close>
    read with \<open>sint\<close>. Binding a Python \<^verbatim>\<open>int\<close> outside that range raises
    \<^verbatim>\<open>OverflowError\<close> (``Python int too large to convert to SQLite INTEGER'');
  \<^item> the parameters of a statement are bound in the order in which the statement names
    them, and the first binding that fails ends the call;
  \<^item> the table has no primary key, so its rows are kept in rowid order, a new row gets
    the next rowid, and a scan returns the rows in that order: the table is a list and
    INSERT appends to it;
  \<^item> a transaction is opened implicitly before INSERT, UPDATE and DELETE when none is
    open, and \<^verbatim>\<open>with conn:\<close> commits when its body returns and rolls back when it raises.
  The model covers the connection between \<^verbatim>\<open>connect\<close> and \<^verbatim>\<open>close\<close>, where the four
  functions are called. Limits of memory and of the length of a value are outside it.
\<close>

subsection \<open>Data\<close>

datatype error = OverflowError | UnicodeEncodeError

text \<open>A Python \<^verbatim>\<open>str\<close>: its code points. The code points that UTF-8 encodes are those
  below U+D800 (55296) and those above U+DFFF (57343) up to U+10FFFF (1114111).\<close>

type_synonym py_str = "nat list"

definition encodable_char :: "nat \<Rightarrow> bool" where
  "encodable_char c = (c < 55296 \<or> (57343 < c \<and> c \<le> 1114111))"

definition encodable :: "py_str \<Rightarrow> bool" where
  "encodable s = list_all encodable_char s"

text \<open>A \<^verbatim>\<open>str\<close> literal of the script, such as \<^verbatim>\<open>'John'\<close>.\<close>

definition str :: "string \<Rightarrow> py_str" where
  "str cs = map of_char cs"

text \<open>A stored TEXT value. \<open>utf8\<close> stores a \<^verbatim>\<open>str\<close> that can be encoded, \<open>column_text\<close>
  reads the \<^verbatim>\<open>str\<close> back.\<close>

typedef sql_text = "{s :: nat list. encodable s}"
  morphisms column_text utf8
  by (rule exI [of _ "[]"]) (simp add: encodable_def)

text \<open>
  Modelled from the spec: the class \<^verbatim>\<open>Employee\<close> of \<^verbatim>\<open>employee.py\<close>, imported in line 10,
  is not among the sources. The spec gives it the attributes \<^verbatim>\<open>first\<close> (text),
  \<^verbatim>\<open>last\<close> (text) and \<^verbatim>\<open>pay\<close> (integer); the script only reads these three attributes.
  The field \<^verbatim>\<open>last\<close> is written \<open>last'\<close>, since \<open>last\<close> is a function on lists.
\<close>

record Employee =
  first :: py_str
  last' :: py_str
  pay :: int

text \<open>A stored row, and a row as \<^verbatim>\<open>fetchall\<close> hands it to Python: a tuple of two
  \<^verbatim>\<open>str\<close> and an \<^verbatim>\<open>int\<close>.\<close>

type_synonym row = "sql_text \<times> sql_text \<times> 64 word"
type_synonym py_row = "py_str \<times> py_str \<times> int"

definition row_first :: "row \<Rightarrow> sql_text" where
  "row_first r = fst r"

definition row_last :: "row \<Rightarrow> sql_text" where
  "row_last r = fst (snd r)"

definition row_pay :: "row \<Rightarrow> 64 word" where
  "row_pay r = snd (snd r)"

definition to_python :: "row \<Rightarrow> py_row" where
  "to_python r = (column_text (row_first r), column_text (row_last r), sint (row_pay r))"

text \<open>
  The state behind the two globals \<^verbatim>\<open>conn\<close> and \<^verbatim>\<open>c\<close>:
  \<^item> \<open>employees\<close>: the rows of the table as this connection sees them, in rowid order;
  \<^item> \<open>snapshot\<close>: \<open>Some t\<close> while a transaction is open, \<open>t\<close> being the rows at its start,
    to which a rollback returns; \<open>None\<close> when no transaction is open;
  \<^item> \<open>pending\<close>: the result rows of the cursor's last statement that were not fetched yet.
\<close>

record db_state =
  employees :: "row list"
  snapshot :: "row list option"
  pending :: "row list"

type_synonym 'a outcome = "(error + 'a) \<times> db_state"

text \<open>Lines 30 to 41: a fresh in-memory database, a cursor, and the empty table.\<close>

definition fresh_db :: db_state where
  "fresh_db = \<lparr>employees = [], snapshot = None, pending = []\<rparr>"

subsection \<open>The sqlite3 module: transactions, binding, the four statements\<close>

definition begin_transaction :: "db_state \<Rightarrow> db_state" where
  "begin_transaction s =
     (case snapshot s of
        None \<Rightarrow> s\<lparr>snapshot := Some (employees s)\<rparr>
      | Some t \<Rightarrow> s)"

definition commit :: "db_state \<Rightarrow> db_state" where
  "commit s = s\<lparr>snapshot := None\<rparr>"

definition rollback :: "db_state \<Rightarrow> db_state" where
  "rollback s =
     (case snapshot s of
        None \<Rightarrow> s
      | Some t \<Rightarrow> s\<lparr>employees := t, snapshot := None\<rparr>)"

text \<open>Binding a Python \<^verbatim>\<open>str\<close> to a parameter: its UTF-8 text or \<^verbatim>\<open>UnicodeEncodeError\<close>.\<close>

definition bind_text :: "py_str \<Rightarrow> error + sql_text" where
  "bind_text t = (if encodable t then Inr (utf8 t) else Inl UnicodeEncodeError)"

text \<open>Binding a Python \<^verbatim>\<open>int\<close> to a parameter: a signed 64-bit value or \<^verbatim>\<open>OverflowError\<close>.\<close>

definition bind_integer :: "int \<Rightarrow> error + 64 word" where
  "bind_integer i =
     (if - (2 ^ 63) \<le> i \<and> i < 2 ^ 63 then Inr (word_of_int i) else Inl OverflowError)"

text \<open>The parameters of the four statements, bound in the order in which each statement
  names them: \<^verbatim>\<open>:first, :last, :pay\<close> in the INSERT (line 66), \<^verbatim>\<open>:pay, :last, :first\<close> in
  the UPDATE (line 77), \<^verbatim>\<open>:first, :last\<close> in the DELETE (line 83), \<^verbatim>\<open>:last\<close> in the
  SELECT (line 71).\<close>

definition bind_insert :: "py_str \<Rightarrow> py_str \<Rightarrow> int \<Rightarrow> error + row" where
  "bind_insert f l p =
     (case bind_text f of
        Inl e \<Rightarrow> Inl e
      | Inr ft \<Rightarrow>
          (case bind_text l of
             Inl e \<Rightarrow> Inl e
           | Inr lt \<Rightarrow>
               (case bind_integer p of
                  Inl e \<Rightarrow> Inl e
                | Inr w \<Rightarrow> Inr (ft, lt, w))))"

definition bind_update :: "py_str \<Rightarrow> py_str \<Rightarrow> int \<Rightarrow> error + row" where
  "bind_update f l p =
     (case bind_integer p of
        Inl e \<Rightarrow> Inl e
      | Inr w \<Rightarrow>
          (case bind_text l of
             Inl e \<Rightarrow> Inl e
           | Inr lt \<Rightarrow>
               (case bind_text f of
                  Inl e \<Rightarrow> Inl e
                | Inr ft \<Rightarrow> Inr (ft, lt, w))))"

definition bind_delete :: "py_str \<Rightarrow> py_str \<Rightarrow> error + sql_text \<times> sql_text" where
  "bind_delete f l =
     (case bind_text f of
        Inl e \<Rightarrow> Inl e
      | Inr ft \<Rightarrow>
          (case bind_text l of
             Inl e \<Rightarrow> Inl e
           | Inr lt \<Rightarrow> Inr (ft, lt)))"

text \<open>
  \<^verbatim>\<open>c.execute\<close> of a statement that changes data: the cursor drops the rows of its last
  statement, a transaction is opened if none is open, the parameters are bound, and the
  statement runs. An error of the binding leaves the opened transaction to the caller.
\<close>

definition execute_insert :: "py_str \<Rightarrow> py_str \<Rightarrow> int \<Rightarrow> db_state \<Rightarrow> unit outcome" where
  "execute_insert f l p s =
     (let s1 = begin_transaction (s\<lparr>pending := []\<rparr>) in
      case bind_insert f l p of
        Inl e \<Rightarrow> (Inl e, s1)
      | Inr r \<Rightarrow> (Inr (), s1\<lparr>employees := employees s1 @ [r]\<rparr>))"

definition set_pay :: "sql_text \<Rightarrow> sql_text \<Rightarrow> 64 word \<Rightarrow> row \<Rightarrow> row" where
  "set_pay f l w r =
     (if row_last r = l \<and> row_first r = f then (row_first r, row_last r, w) else r)"

definition execute_update :: "py_str \<Rightarrow> py_str \<Rightarrow> int \<Rightarrow> db_state \<Rightarrow> unit outcome" where
  "execute_update f l p s =
     (let s1 = begin_transaction (s\<lparr>pending := []\<rparr>) in
      case bind_update f l p of
        Inl e \<Rightarrow> (Inl e, s1)
      | Inr (ft, lt, w) \<Rightarrow> (Inr (), s1\<lparr>employees := map (set_pay ft lt w) (employees s1)\<rparr>))"

definition execute_delete :: "py_str \<Rightarrow> py_str \<Rightarrow> db_state \<Rightarrow> unit outcome" where
  "execute_delete f l s =
     (let s1 = begin_transaction (s\<lparr>pending := []\<rparr>) in
      case bind_delete f l of
        Inl e \<Rightarrow> (Inl e, s1)
      | Inr (ft, lt) \<Rightarrow>
          (Inr (), s1\<lparr>employees :=
                      filter (\<lambda>r. \<not> (row_first r = ft \<and> row_last r = lt)) (employees s1)\<rparr>))"

text \<open>\<^verbatim>\<open>c.execute\<close> of the SELECT opens no transaction; its rows wait in the cursor.\<close>

definition execute_select :: "py_str \<Rightarrow> db_state \<Rightarrow> unit outcome" where
  "execute_select l s =
     (case bind_text l of
        Inl e \<Rightarrow> (Inl e, s\<lparr>pending := []\<rparr>)
      | Inr lt \<Rightarrow> (Inr (), s\<lparr>pending := filter (\<lambda>r. row_last r = lt) (employees s)\<rparr>))"

definition fetchall :: "db_state \<Rightarrow> py_row list \<times> db_state" where
  "fetchall s = (map to_python (pending s), s\<lparr>pending := []\<rparr>)"

text \<open>\<^verbatim>\<open>with conn:\<close> runs its body, then commits if the body returned and rolls back if
  it raised; the exception of the body is raised again as it is.\<close>

definition with_conn :: "(db_state \<Rightarrow> 'a outcome) \<Rightarrow> db_state \<Rightarrow> 'a outcome" where
  "with_conn body s =
     (case body s of
        (Inl e, s') \<Rightarrow> (Inl e, rollback s')
      | (Inr v, s') \<Rightarrow> (Inr v, commit s'))"

subsection \<open>The four functions of the script\<close>

definition insert_emp :: "Employee \<Rightarrow> db_state \<Rightarrow> unit outcome" where
  "insert_emp emp = with_conn (execute_insert (first emp) (last' emp) (pay emp))"

definition get_emps_by_name :: "py_str \<Rightarrow> db_state \<Rightarrow> py_row list outcome" where
  "get_emps_by_name lastname s =
     (case execute_select lastname s of
        (Inl e, s') \<Rightarrow> (Inl e, s')
      | (Inr _, s') \<Rightarrow> (case fetchall s' of (rows, s'') \<Rightarrow> (Inr rows, s'')))"

definition update_pay :: "Employee \<Rightarrow> int \<Rightarrow> db_state \<Rightarrow> unit outcome" where
  "update_pay emp p = with_conn (execute_update (first emp) (last' emp) p)"

definition remove_emp :: "Employee \<Rightarrow> db_state \<Rightarrow> unit outcome" where
  "remove_emp emp = with_conn (execute_delete (first emp) (last' emp))"

text \<open>A sequence of calls of \<^verbatim>\<open>insert_emp\<close>, as in lines 91 and 92: an exception ends it.\<close>

fun insert_all :: "Employee list \<Rightarrow> db_state \<Rightarrow> unit outcome" where
  "insert_all [] s = (Inr (), s)"
| "insert_all (emp # emps) s =
     (case insert_emp emp s of
        (Inl e, s') \<Rightarrow> (Inl e, s')
      | (Inr _, s') \<Rightarrow> insert_all emps s')"

text \<open>Lines 88 to 92: the two employees of the script, and the database after both
  were inserted.\<close>

definition emp_1 :: Employee where
  "emp_1 = \<lparr>first = str ''John'', last' = str ''Doe'', pay = 80000\<rparr>"

definition emp_2 :: Employee where
  "emp_2 = \<lparr>first = str ''Jane'', last' = str ''Doe'', pay = 90000\<rparr>"

definition demo_db :: db_state where
  "demo_db = snd (insert_emp emp_2 (snd (insert_emp emp_1 fresh_db)))"

section \<open>What each function does to the state\<close>

lemmas row_defs = row_first_def row_last_def row_pay_def to_python_def set_pay_def

subsection \<open>Text and integers\<close>

lemma encodable_str: "encodable (str cs)"
proof -
  have small: "of_char c < (256 :: nat)" for c :: char
    using of_char_mod_256 [of c, where ?'a = nat] by (metis mod_less_divisor zero_less_numeral)
  have "encodable_char (of_char c)" for c :: char
    using small [of c] unfolding encodable_char_def by linarith
  then show ?thesis
    by (simp add: encodable_def str_def list_all_iff)
qed

lemma str_eq_iff: "str a = str b \<longleftrightarrow> a = b"
  by (simp add: str_def inj_map_eq_map [OF inj_of_char])

lemma surrogate_not_encodable: "\<not> encodable [55296]"
  by (simp add: encodable_def encodable_char_def)

lemma utf8_column_text: "encodable t \<Longrightarrow> column_text (utf8 t) = t"
  by (simp add: utf8_inverse)

lemma encodable_column_text: "encodable (column_text t)"
  using column_text [of t] by simp

lemma utf8_eq_iff: "encodable a \<Longrightarrow> encodable b \<Longrightarrow> utf8 a = utf8 b \<longleftrightarrow> a = b"
  by (simp add: utf8_inject)


lemma surrogate_not_str: "[55296] \<noteq> str cs" "str cs \<noteq> [55296]"
  using encodable_str [of cs] surrogate_not_encodable by auto

lemmas str_simps = encodable_str str_eq_iff utf8_column_text utf8_eq_iff surrogate_not_encodable
  surrogate_not_str


lemma bind_text_Inr: "encodable t \<Longrightarrow> bind_text t = Inr (utf8 t)"
  by (simp add: bind_text_def)

lemma bind_text_Inl: "\<not> encodable t \<Longrightarrow> bind_text t = Inl UnicodeEncodeError"
  by (simp add: bind_text_def)

lemma bind_text_column_text: "bind_text (column_text t) = Inr t"
  by (simp add: bind_text_def encodable_column_text column_text_inverse)

lemma bind_integer_Inr:
  "- (2 ^ 63) \<le> p \<Longrightarrow> p < 2 ^ 63 \<Longrightarrow> bind_integer p = Inr (word_of_int p)"
  by (simp add: bind_integer_def)

lemma bind_integer_Inl:
  "\<not> (- (2 ^ 63) \<le> p \<and> p < 2 ^ 63) \<Longrightarrow> bind_integer p = Inl OverflowError"
  by (simp add: bind_integer_def)

lemma bind_integer_sint: "bind_integer (sint w) = Inr w"
proof -
  have "- (2 ^ 63) \<le> sint w" and "sint w < 2 ^ 63"
    using sint_ge [of w] sint_lt [of w] by simp_all
  then show ?thesis by (simp add: bind_integer_def)
qed

lemma bind_insert_Inr:
  "encodable f \<Longrightarrow> encodable l \<Longrightarrow> - (2 ^ 63) \<le> p \<Longrightarrow> p < 2 ^ 63 \<Longrightarrow>
   bind_insert f l p = Inr (utf8 f, utf8 l, word_of_int p)"
  by (simp add: bind_insert_def bind_text_Inr bind_integer_Inr)

lemma bind_update_Inr:
  "encodable f \<Longrightarrow> encodable l \<Longrightarrow> - (2 ^ 63) \<le> p \<Longrightarrow> p < 2 ^ 63 \<Longrightarrow>
   bind_update f l p = Inr (utf8 f, utf8 l, word_of_int p)"
  by (simp add: bind_update_def bind_text_Inr bind_integer_Inr)

lemma bind_delete_Inr:
  "encodable f \<Longrightarrow> encodable l \<Longrightarrow> bind_delete f l = Inr (utf8 f, utf8 l)"
  by (simp add: bind_delete_def bind_text_Inr)

subsection \<open>The four functions, by the outcome of the binding\<close>

lemma insert_emp_returns:
  "bind_insert (first e) (last' e) (pay e) = Inr r \<Longrightarrow>
   insert_emp e s =
     (Inr (), \<lparr>employees = employees s @ [r], snapshot = None, pending = []\<rparr>)"
  by (simp add: insert_emp_def with_conn_def execute_insert_def
      begin_transaction_def commit_def Let_def split: option.splits)

lemma insert_emp_raises:
  "bind_insert (first e) (last' e) (pay e) = Inl err \<Longrightarrow>
   insert_emp e s =
     (Inl err,
      \<lparr>employees = (case snapshot s of None \<Rightarrow> employees s | Some t \<Rightarrow> t),
       snapshot = None, pending = []\<rparr>)"
  by (simp add: insert_emp_def with_conn_def execute_insert_def
      begin_transaction_def rollback_def Let_def split: option.splits)

lemma update_pay_returns:
  "bind_update (first e) (last' e) p = Inr (ft, lt, w) \<Longrightarrow>
   update_pay e p s =
     (Inr (), \<lparr>employees = map (set_pay ft lt w) (employees s),
               snapshot = None, pending = []\<rparr>)"
  by (simp add: update_pay_def with_conn_def execute_update_def
      begin_transaction_def commit_def Let_def split: option.splits)

lemma update_pay_raises:
  "bind_update (first e) (last' e) p = Inl err \<Longrightarrow>
   update_pay e p s =
     (Inl err,
      \<lparr>employees = (case snapshot s of None \<Rightarrow> employees s | Some t \<Rightarrow> t),
       snapshot = None, pending = []\<rparr>)"
  by (simp add: update_pay_def with_conn_def execute_update_def
      begin_transaction_def rollback_def Let_def split: option.splits)

lemma remove_emp_returns:
  "bind_delete (first e) (last' e) = Inr (ft, lt) \<Longrightarrow>
   remove_emp e s =
     (Inr (),
      \<lparr>employees = filter (\<lambda>r. \<not> (row_first r = ft \<and> row_last r = lt)) (employees s),
       snapshot = None, pending = []\<rparr>)"
  by (simp add: remove_emp_def with_conn_def execute_delete_def
      begin_transaction_def commit_def Let_def split: option.splits)

lemma remove_emp_raises:
  "bind_delete (first e) (last' e) = Inl err \<Longrightarrow>
   remove_emp e s =
     (Inl err,
      \<lparr>employees = (case snapshot s of None \<Rightarrow> employees s | Some t \<Rightarrow> t),
       snapshot = None, pending = []\<rparr>)"
  by (simp add: remove_emp_def with_conn_def execute_delete_def
      begin_transaction_def rollback_def Let_def split: option.splits)

lemma get_emps_by_name_returns:
  "encodable l \<Longrightarrow>
   get_emps_by_name l s =
     (Inr (map to_python (filter (\<lambda>r. row_last r = utf8 l) (employees s))), s\<lparr>pending := []\<rparr>)"
  by (simp add: get_emps_by_name_def execute_select_def fetchall_def bind_text_Inr)

lemma get_emps_by_name_raises:
  "\<not> encodable l \<Longrightarrow> get_emps_by_name l s = (Inl UnicodeEncodeError, s\<lparr>pending := []\<rparr>)"
  by (simp add: get_emps_by_name_def execute_select_def bind_text_Inl)

lemma insert_emp_eq:
  "insert_emp e s =
     (case bind_insert (first e) (last' e) (pay e) of
        Inl err \<Rightarrow>
          (Inl err,
           \<lparr>employees = (case snapshot s of None \<Rightarrow> employees s | Some t \<Rightarrow> t),
            snapshot = None, pending = []\<rparr>)
      | Inr r \<Rightarrow> (Inr (), \<lparr>employees = employees s @ [r], snapshot = None, pending = []\<rparr>))"
  by (cases "bind_insert (first e) (last' e) (pay e)")
    (simp_all add: insert_emp_returns insert_emp_raises)

lemma update_pay_eq:
  "update_pay e p s =
     (case bind_update (first e) (last' e) p of
        Inl err \<Rightarrow>
          (Inl err,
           \<lparr>employees = (case snapshot s of None \<Rightarrow> employees s | Some t \<Rightarrow> t),
            snapshot = None, pending = []\<rparr>)
      | Inr (ft, lt, w) \<Rightarrow>
          (Inr (), \<lparr>employees = map (set_pay ft lt w) (employees s),
                    snapshot = None, pending = []\<rparr>))"
proof (cases "bind_update (first e) (last' e) p")
  case (Inl err)
  then show ?thesis by (simp add: update_pay_raises)
next
  case (Inr r)
  then show ?thesis by (cases r) (simp add: update_pay_returns)
qed

lemma remove_emp_eq:
  "remove_emp e s =
     (case bind_delete (first e) (last' e) of
        Inl err \<Rightarrow>
          (Inl err,
           \<lparr>employees = (case snapshot s of None \<Rightarrow> employees s | Some t \<Rightarrow> t),
            snapshot = None, pending = []\<rparr>)
      | Inr (ft, lt) \<Rightarrow>
          (Inr (),
           \<lparr>employees = filter (\<lambda>r. \<not> (row_first r = ft \<and> row_last r = lt)) (employees s),
            snapshot = None, pending = []\<rparr>))"
proof (cases "bind_delete (first e) (last' e)")
  case (Inl err)
  then show ?thesis by (simp add: remove_emp_raises)
next
  case (Inr r)
  then show ?thesis by (cases r) (simp add: remove_emp_returns)
qed


text \<open>The outcomes in terms of the arguments, when every argument can be bound.\<close>

lemma insert_emp_ok:
  "encodable (first e) \<Longrightarrow> encodable (last' e) \<Longrightarrow> - (2 ^ 63) \<le> pay e \<Longrightarrow> pay e < 2 ^ 63 \<Longrightarrow>
   insert_emp e s =
     (Inr (), \<lparr>employees = employees s @ [(utf8 (first e), utf8 (last' e), word_of_int (pay e))],
               snapshot = None, pending = []\<rparr>)"
  by (simp add: insert_emp_returns bind_insert_Inr)

lemma update_pay_ok:
  "encodable (first e) \<Longrightarrow> encodable (last' e) \<Longrightarrow> - (2 ^ 63) \<le> p \<Longrightarrow> p < 2 ^ 63 \<Longrightarrow>
   update_pay e p s =
     (Inr (), \<lparr>employees = map (set_pay (utf8 (first e)) (utf8 (last' e)) (word_of_int p)) (employees s),
               snapshot = None, pending = []\<rparr>)"
  by (simp add: update_pay_returns bind_update_Inr)

lemma remove_emp_ok:
  "encodable (first e) \<Longrightarrow> encodable (last' e) \<Longrightarrow>
   remove_emp e s =
     (Inr (),
      \<lparr>employees = filter (\<lambda>r. \<not> (row_first r = utf8 (first e) \<and> row_last r = utf8 (last' e)))
                     (employees s),
       snapshot = None, pending = []\<rparr>)"
  by (simp add: remove_emp_returns bind_delete_Inr)

lemma emp_simps:
  "first emp_1 = str ''John''" "last' emp_1 = str ''Doe''" "pay emp_1 = 80000"
  "first emp_2 = str ''Jane''" "last' emp_2 = str ''Doe''" "pay emp_2 = 90000"
  by (simp_all add: emp_1_def emp_2_def)

lemma demo_db_eq:
  "demo_db = \<lparr>employees = [(utf8 (str ''John''), utf8 (str ''Doe''), 80000),
                           (utf8 (str ''Jane''), utf8 (str ''Doe''), 90000)],
              snapshot = None, pending = []\<rparr>"
  by (simp add: demo_db_def insert_emp_ok emp_simps fresh_db_def encodable_str)

text \<open>
  No transaction is open when the script calls one of the four functions: none is open
  after the table was created, each of the three changing functions closes the one it
  opened, and the query opens none.
\<close>

lemma no_transaction_fresh: "snapshot fresh_db = None"
  by (simp add: fresh_db_def)

lemma no_transaction_after_insert: "snapshot (snd (insert_emp e s)) = None"
  by (cases "bind_insert (first e) (last' e) (pay e)")
    (simp_all add: insert_emp_returns insert_emp_raises)

lemma no_transaction_after_update: "snapshot (snd (update_pay e p s)) = None"
proof (cases "bind_update (first e) (last' e) p")
  case (Inl err)
  then show ?thesis by (simp add: update_pay_raises)
next
  case (Inr r)
  then show ?thesis by (cases r) (simp add: update_pay_returns)
qed

lemma no_transaction_after_remove: "snapshot (snd (remove_emp e s)) = None"
proof (cases "bind_delete (first e) (last' e)")
  case (Inl err)
  then show ?thesis by (simp add: remove_emp_raises)
next
  case (Inr r)
  then show ?thesis by (cases r) (simp add: remove_emp_returns)
qed

lemma no_transaction_after_query: "snapshot (snd (get_emps_by_name l s)) = snapshot s"
  by (cases "encodable l") (simp_all add: get_emps_by_name_returns get_emps_by_name_raises)

text \<open>The two lists the script prints in lines 95 and 101; the first is the one its
  comment in line 95 gives.\<close>

lemma script_first_print:
  "fst (get_emps_by_name (str ''Doe'') demo_db)
     = Inr [(str ''John'', str ''Doe'', 80000), (str ''Jane'', str ''Doe'', 90000)]"
  by (simp add: demo_db_eq get_emps_by_name_returns row_defs str_simps)

lemma script_second_print:
  "fst (get_emps_by_name (str ''Doe'')
         (snd (remove_emp emp_1
                (snd (update_pay emp_2 95000 (snd (get_emps_by_name (str ''Doe'') demo_db)))))))
     = Inr [(str ''Jane'', str ''Doe'', 95000)]"
  by (simp add: demo_db_eq get_emps_by_name_returns update_pay_ok remove_emp_ok emp_simps
      row_defs str_simps)

section \<open>Insert, then query\<close>




section \<open>Insert, update the pay, then query\<close>




section \<open>Delete, then query\<close>




section \<open>What an update changes\<close>




section \<open>A changing function is applied whole or not at all\<close>



section \<open>A query that matches no row\<close>




section \<open>Deleting twice\<close>




section \<open>Inserting a row that is already there\<close>

text \<open>
  C8. If the table holds a row with the fields \<open>(f, l, p)\<close>, \<^verbatim>\<open>insert_emp\<close> of an
  employee with these fields returns without an error, the table afterwards is the old
  table with that row added at its end, and so it holds one more copy of the row.
\<close>

theorem insert_duplicate:
  assumes "(f, l, w) \<in> set (employees s)"
  shows "fst (insert_emp \<lparr>first = column_text f, last' = column_text l, pay = sint w\<rparr> s) = Inr () \<and>
         employees (snd (insert_emp \<lparr>first = column_text f, last' = column_text l, pay = sint w\<rparr> s))
           = employees s @ [(f, l, w)] \<and>
         count_list
           (employees (snd (insert_emp \<lparr>first = column_text f, last' = column_text l, pay = sint w\<rparr> s)))
           (f, l, w)
           = count_list (employees s) (f, l, w) + 1"
proof -
  have "bind_insert (column_text f) (column_text l) (sint w) = Inr (f, l, w)"
    by (simp add: bind_insert_def bind_text_column_text bind_integer_sint)
  then show ?thesis by (simp add: insert_emp_eq)
qed

theorem insert_duplicate_witness:
  "(utf8 (str ''John''), utf8 (str ''Doe''), 80000) \<in> set (employees demo_db) \<and>
   column_text (utf8 (str ''John'')) = str ''John'' \<and>
   column_text (utf8 (str ''Doe'')) = str ''Doe'' \<and>
   sint (80000 :: 64 word) = 80000 \<and>
   fst (insert_emp \<lparr>first = column_text (utf8 (str ''John'')), last' = column_text (utf8 (str ''Doe'')),
                    pay = sint (80000 :: 64 word)\<rparr> demo_db) = Inr () \<and>
   map to_python
     (employees (snd (insert_emp \<lparr>first = column_text (utf8 (str ''John'')),
                                  last' = column_text (utf8 (str ''Doe'')),
                                  pay = sint (80000 :: 64 word)\<rparr> demo_db)))
     = [(str ''John'', str ''Doe'', 80000), (str ''Jane'', str ''Doe'', 90000),
        (str ''John'', str ''Doe'', 80000)]"
  using insert_duplicate [of "utf8 (str ''John'')" "utf8 (str ''Doe'')" 80000 demo_db]
  by (simp add: demo_db_eq row_defs str_simps)

section \<open>The order of the rows of a query\<close>



lemma insert_all_returns:
  "list_all (\<lambda>e. encodable (first e) \<and> encodable (last' e) \<and> - (2 ^ 63) \<le> pay e \<and> pay e < 2 ^ 63) es
   \<Longrightarrow> fst (insert_all es s0) = Inr ()"
  by (induction es arbitrary: s0) (simp_all add: insert_emp_ok)




section \<open>The same table and the same arguments give the same result\<close>

text \<open>
  C10. Take two states of the database with the same table and no open transaction
  (which holds at every call of the script); the rows left in the cursor may differ.
  Then each of \<^verbatim>\<open>insert_emp\<close>, \<^verbatim>\<open>update_pay\<close>, \<^verbatim>\<open>remove_emp\<close> and
  \<^verbatim>\<open>get_emps_by_name\<close>, called with the same arguments, returns or raises the same in
  both and leaves the same state, and the query returns the same list.
\<close>

theorem operations_deterministic:
  assumes "employees s1 = employees s2" and "snapshot s1 = None" and "snapshot s2 = None"
  shows "insert_emp e s1 = insert_emp e s2 \<and>
         update_pay e p s1 = update_pay e p s2 \<and>
         remove_emp e s1 = remove_emp e s2 \<and>
         get_emps_by_name l s1 = get_emps_by_name l s2"
proof -
  have "insert_emp e s1 = insert_emp e s2"
    using assms by (simp add: insert_emp_eq split: sum.splits prod.splits)
  moreover have "update_pay e p s1 = update_pay e p s2"
    using assms by (simp add: update_pay_eq split: sum.splits prod.splits)
  moreover have "remove_emp e s1 = remove_emp e s2"
    using assms by (simp add: remove_emp_eq split: sum.splits prod.splits)
  moreover have "get_emps_by_name l s1 = get_emps_by_name l s2"
    using assms
    by (cases "encodable l") (simp_all add: get_emps_by_name_returns get_emps_by_name_raises)
  ultimately show ?thesis by simp
qed

theorem operations_deterministic_witness:
  "employees (demo_db\<lparr>pending := employees demo_db\<rparr>) = employees demo_db \<and>
   snapshot (demo_db\<lparr>pending := employees demo_db\<rparr>) = None \<and>
   snapshot demo_db = None \<and>
   demo_db\<lparr>pending := employees demo_db\<rparr> \<noteq> demo_db \<and>
   insert_emp emp_1 (demo_db\<lparr>pending := employees demo_db\<rparr>) = insert_emp emp_1 demo_db \<and>
   update_pay emp_1 95000 (demo_db\<lparr>pending := employees demo_db\<rparr>) = update_pay emp_1 95000 demo_db \<and>
   remove_emp emp_1 (demo_db\<lparr>pending := employees demo_db\<rparr>) = remove_emp emp_1 demo_db \<and>
   get_emps_by_name (str ''Doe'') (demo_db\<lparr>pending := employees demo_db\<rparr>)
     = get_emps_by_name (str ''Doe'') demo_db"
  using operations_deterministic
    [of "demo_db\<lparr>pending := employees demo_db\<rparr>" demo_db emp_1 95000 "str ''Doe''"]
  by (simp add: demo_db_eq)

end
